theory Spec2Isabelle
  imports Complex_Main
begin

section \<open>cueBeamCore: data model\<close>

text \<open>
  The development follows \<^verbatim>\<open>src/python/cueBeamCore.py\<close>.

  Python floats are modelled as real numbers: rounding, underflow, overflow and NaN are
  not part of the model, and every arithmetic statement below is one of exact arithmetic.
  The arithmetic is confined to the loop over the transmitters and to the sample
  coordinates; the constructor, the reset, the loops over the grid and the writes into
  the buffer do not depend on it. Python integers are \<open>int\<close>.

  The exceptions that the modelled statements can raise. \<open>AttributeError\<close> carries the
  message the constructor passes; the others are raised by the interpreter
  (float division by zero) and by numpy (index out of bounds, negative dimension).
\<close>

datatype error =
    AttributeError string
  | ZeroDivisionError
  | IndexError
  | ValueError

text \<open>\<^verbatim>\<open>class TxElement\<close>: five attributes, set by \<^verbatim>\<open>__init__\<close>.\<close>

record TxElement =
  x :: real
  y :: real
  z :: real
  amplitude :: real
  phase :: real

text \<open>
  A two-dimensional numpy array of complex numbers: its shape and the value stored at
  every index pair. Index pairs outside the shape are never read or written.
\<close>

record ndarray =
  shape :: "nat \<times> nat"
  item :: "nat \<times> nat \<Rightarrow> complex"

text \<open>
  Arrays are objects with identity: an attribute holds a reference to an array, and two
  references can name the same array. The store maps references to arrays;
  \<open>next_addr\<close> is the first reference that has not been handed out.
\<close>

type_synonym addr = nat

record heap =
  arrays :: "addr \<Rightarrow> ndarray"
  next_addr :: addr

text \<open>
  \<^verbatim>\<open>numpy.zeros((n, m), numpy.complex)\<close>: a new array of complex zeros; numpy refuses a
  negative dimension with \<^verbatim>\<open>ValueError\<close>.
\<close>

definition numpy_zeros :: "int \<Rightarrow> int \<Rightarrow> heap \<Rightarrow> (error + addr) \<times> heap" where
  "numpy_zeros n m hp =
     (if n < 0 \<or> m < 0 then (Inl ValueError, hp)
      else (Inr (next_addr hp),
            hp\<lparr>arrays := (arrays hp)(next_addr hp := \<lparr>shape = (nat n, nat m), item = (\<lambda>_. 0)\<rparr>),
               next_addr := Suc (next_addr hp)\<rparr>))"

text \<open>
  \<^verbatim>\<open>a[(iy, iz)] = v\<close> for non-negative indices: a write into the array the reference
  names, or \<^verbatim>\<open>IndexError\<close> when an index is not below the corresponding dimension.
\<close>

definition setitem :: "addr \<Rightarrow> nat \<times> nat \<Rightarrow> complex \<Rightarrow> heap \<Rightarrow> heap \<times> error option" where
  "setitem p idx v hp =
     (let a = arrays hp p in
      if fst idx < fst (shape a) \<and> snd idx < snd (shape a)
      then (hp\<lparr>arrays := (arrays hp)(p := a\<lparr>item := (item a)(idx := v)\<rparr>)\<rparr>, None)
      else (hp, Some IndexError))"

text \<open>\<^verbatim>\<open>class RxPlane\<close>. The attribute \<open>pressurefield\<close> is a reference to an array.\<close>

record RxPlane =
  x0 :: real
  y0 :: real
  z0 :: real
  dx :: real
  dy :: real
  dz :: real
  nx :: int
  ny :: int
  nz :: int
  pressurefield :: addr

text \<open>
  The class attributes of \<^verbatim>\<open>RxPlane\<close>, which an instance shows until \<^verbatim>\<open>__init__\<close>
  assigns its own. The class-level array is allocated once, when the class body runs;
  \<open>RxPlane_class a\<close> is the class with that array at reference \<open>a\<close>.
\<close>

definition RxPlane_class :: "addr \<Rightarrow> RxPlane" where
  "RxPlane_class a =
     \<lparr>x0 = - 0.00001, y0 = - 0.001, z0 = 0, dx = 0.001, dy = 0.001, dz = 0.001,
      nx = 1, ny = 240, nz = 160, pressurefield = a\<rparr>"

definition class_body :: "heap \<Rightarrow> (error + RxPlane) \<times> heap" where
  "class_body hp =
     (case numpy_zeros 240 160 hp of
        (Inl e, hp') \<Rightarrow> (Inl e, hp')
      | (Inr a, hp') \<Rightarrow> (Inr (RxPlane_class a), hp'))"

text \<open>
  \<^verbatim>\<open>clear_pressurefield\<close>: binds the attribute to a new array of zeros whose shape is
  read from the attributes \<open>ny\<close> and \<open>nz\<close>.
\<close>

definition clear_pressurefield :: "RxPlane \<Rightarrow> heap \<Rightarrow> (RxPlane \<times> heap) \<times> error option" where
  "clear_pressurefield self hp =
     (case numpy_zeros (ny self) (nz self) hp of
        (Inl e, hp') \<Rightarrow> ((self, hp'), Some e)
      | (Inr a, hp') \<Rightarrow> ((self\<lparr>pressurefield := a\<rparr>, hp'), None))"

text \<open>
  \<^verbatim>\<open>RxPlane.__init__\<close>, statement by statement, on the object under construction. The
  result is that object and the store at the moment the method returns or raises.
  The attribute \<open>nx\<close> is never assigned: it stays the class attribute.
\<close>

definition RxPlane_init ::
  "RxPlane \<Rightarrow> real \<Rightarrow> real \<Rightarrow> real \<Rightarrow> real \<Rightarrow> real \<Rightarrow> real \<Rightarrow> int \<Rightarrow> int \<Rightarrow> int \<Rightarrow> heap
     \<Rightarrow> (RxPlane \<times> heap) \<times> error option" where
  "RxPlane_init self ax0 ay0 az0 adx ady adz anx any anz hp =
     (let self1 = self\<lparr>x0 := ax0, y0 := ay0, z0 := az0, dx := adx, dy := ady, dz := adz\<rparr> in
      if anx \<noteq> 1 then ((self1, hp), Some (AttributeError ''nx must be 1: ''))
      else if any > 4096 \<or> any < 1
      then ((self1, hp),
            Some (AttributeError ''ny must have a sensible value between 1 an 4096''))
      else
        let self2 = self1\<lparr>ny := any\<rparr> in
        if anz > 4096 \<or> anz < 1
        then ((self2, hp),
              Some (AttributeError ''nz must have a sensible value between 1 and 4096''))
        else
          let self3 = self2\<lparr>nz := anz\<rparr> in
          clear_pressurefield self3 hp)"

text \<open>
  The call \<^verbatim>\<open>RxPlane(x0, y0, z0, dx, dy, dz, nx, ny, nz)\<close>: a new instance of the class
  (whose class-level array is at reference \<open>cls\<close>) is passed to \<^verbatim>\<open>__init__\<close>; the caller
  receives it only when \<^verbatim>\<open>__init__\<close> returns, and receives the exception otherwise.
\<close>

definition RxPlane_new ::
  "addr \<Rightarrow> real \<Rightarrow> real \<Rightarrow> real \<Rightarrow> real \<Rightarrow> real \<Rightarrow> real \<Rightarrow> int \<Rightarrow> int \<Rightarrow> int \<Rightarrow> heap
     \<Rightarrow> (error + RxPlane) \<times> heap" where
  "RxPlane_new cls ax0 ay0 az0 adx ady adz anx any anz hp =
     (case RxPlane_init (RxPlane_class cls) ax0 ay0 az0 adx ady adz anx any anz hp of
        ((self, hp'), None) \<Rightarrow> (Inr self, hp')
      | ((self, hp'), Some e) \<Rightarrow> (Inl e, hp'))"

section \<open>The solver\<close>

text \<open>\<^verbatim>\<open>class CueBeamSolver\<close>: the wavenumber, the transmitters and the sampling plane.\<close>

record CueBeamSolver =
  wavenumber :: real
  elements :: "TxElement list"
  rxPlane :: RxPlane

text \<open>
  A \<^verbatim>\<open>for\<close> loop whose body may raise: the body is run on each value in turn, and the
  first exception ends the loop with the state reached so far.
\<close>

fun for_each :: "'a list \<Rightarrow> ('a \<Rightarrow> 's \<Rightarrow> 's \<times> error option) \<Rightarrow> 's \<Rightarrow> 's \<times> error option" where
  "for_each [] body s = (s, None)"
| "for_each (i # is) body s =
     (case body i s of
        (s', None) \<Rightarrow> for_each is body s'
      | (s', Some e) \<Rightarrow> (s', Some e))"

text \<open>
  The body of the loop over the transmitters (lines 95 to 102), on the accumulators
  \<open>(pressure_re, pressure_im)\<close>. The division of two floats raises
  \<^verbatim>\<open>ZeroDivisionError\<close> when the divisor is zero.

  The arithmetic here is exact, and the program's is not. The model has no rounding of
  the products and of the running sums, which the program accumulates in list order; no
  underflow, where in the program \<open>ddx * ddx\<close> can become \<open>0.0\<close> and the division raise at
  a point that does not coincide with the transmitter; and no overflow, where in the
  program an infinite \<open>kphase\<close> makes \<^verbatim>\<open>math.cos\<close> raise \<^verbatim>\<open>ValueError\<close>. So the model returns
  normally on some inputs on which the program raises. Statements about the values of a
  run are therefore made for runs that return normally and are statements of exact
  arithmetic, and nothing is stated about how the stored doubles, or the exception
  raised, depend on the order of the transmitters.
\<close>

definition tx_body ::
  "CueBeamSolver \<Rightarrow> real \<Rightarrow> real \<Rightarrow> real \<Rightarrow> nat \<Rightarrow> real \<times> real \<Rightarrow> (real \<times> real) \<times> error option" where
  "tx_body self pixel_x pixel_y pixel_z itx acc =
     (let ddx = pixel_x - x (elements self ! itx);
          ddy = pixel_y - y (elements self ! itx);
          ddz = pixel_z - z (elements self ! itx);
          distance = sqrt (ddx * ddx + ddy * ddy + ddz * ddz);
          kphase = - wavenumber self * distance + phase (elements self ! itx)
      in if 2 * 3.14159 * distance = 0 then (acc, Some ZeroDivisionError)
         else
           let kamplitude = amplitude (elements self ! itx) / (2 * 3.14159 * distance)
           in ((fst acc + cos kphase * kamplitude, snd acc + sin kphase * kamplitude), None))"

text \<open>
  The body of the loop over \<open>iy\<close> (lines 89 to 104), on the solver and the store: the
  sample point, the sum over the transmitters from zeroed accumulators, and the write
  into the array that \<open>pressurefield\<close> names. The sample coordinates are exact: in the
  program the rounded \<open>y0 + iy * dy\<close> can equal a transmitter's coordinate where the exact
  one does not.
\<close>

definition pixel_body ::
  "nat \<Rightarrow> nat \<Rightarrow> nat \<Rightarrow> CueBeamSolver \<times> heap \<Rightarrow> (CueBeamSolver \<times> heap) \<times> error option" where
  "pixel_body ix iz iy st =
     (let self = fst st;
          pixel_x = x0 (rxPlane self) + real ix * dx (rxPlane self);
          pixel_y = y0 (rxPlane self) + real iy * dy (rxPlane self);
          pixel_z = z0 (rxPlane self) + real iz * dz (rxPlane self)
      in case for_each [0..<length (elements self)]
                (tx_body self pixel_x pixel_y pixel_z) (0, 0) of
           (acc, Some e) \<Rightarrow> (st, Some e)
         | ((pressure_re, pressure_im), None) \<Rightarrow>
             (case setitem (pressurefield (rxPlane self)) (iy, iz)
                     (complex_of_real pressure_re + \<i> * complex_of_real pressure_im) (snd st) of
                (hp', r) \<Rightarrow> ((self, hp'), r)))"

text \<open>
  \<^verbatim>\<open>beamsim\<close>: \<open>iz\<close> runs over \<^verbatim>\<open>range(self.rxPlane.nz)\<close> in the outer loop and \<open>iy\<close> over
  \<^verbatim>\<open>range(self.rxPlane.ny)\<close> in the inner one, each range read when its loop starts.
\<close>

definition beamsim :: "CueBeamSolver \<times> heap \<Rightarrow> (CueBeamSolver \<times> heap) \<times> error option" where
  "beamsim st =
     (let ix = 0 in
      for_each [0..<nat (nz (rxPlane (fst st)))]
        (\<lambda>iz st'. for_each [0..<nat (ny (rxPlane (fst st')))] (pixel_body ix iz) st') st)"

section \<open>Notions used by the statements\<close>

text \<open>
  A grid as the constructor leaves it, and as \<open>clear_pressurefield\<close> and \<open>beamsim\<close> keep
  it: the counts are the validated ones and the grid's array has shape \<open>(ny, nz)\<close>.
\<close>

definition grid_valid :: "RxPlane \<Rightarrow> heap \<Rightarrow> bool" where
  "grid_valid g hp \<longleftrightarrow>
     nx g = 1 \<and> 1 \<le> ny g \<and> ny g \<le> 4096 \<and> 1 \<le> nz g \<and> nz g \<le> 4096 \<and>
     pressurefield g < next_addr hp \<and>
     shape (arrays hp (pressurefield g)) = (nat (ny g), nat (nz g))"

text \<open>The grid's buffer, read through the grid's reference.\<close>

definition buffer :: "RxPlane \<Rightarrow> heap \<Rightarrow> ndarray" where
  "buffer g hp = arrays hp (pressurefield g)"

text \<open>The Euclidean distance from the sample point \<open>(iy, iz)\<close> of a grid to a transmitter.\<close>

definition distance_to :: "RxPlane \<Rightarrow> TxElement \<Rightarrow> nat \<Rightarrow> nat \<Rightarrow> real" where
  "distance_to g t iy iz =
     sqrt ((x0 g - x t)\<^sup>2 + (y0 g + real iy * dy g - y t)\<^sup>2 + (z0 g + real iz * dz g - z t)\<^sup>2)"

text \<open>A transmitter coincides with the sample point \<open>(iy, iz)\<close>.\<close>

definition coincides :: "RxPlane \<Rightarrow> TxElement \<Rightarrow> nat \<Rightarrow> nat \<Rightarrow> bool" where
  "coincides g t iy iz \<longleftrightarrow>
     x t = x0 g \<and> y t = y0 g + real iy * dy g \<and> z t = z0 g + real iz * dz g"

text \<open>No transmitter of the list coincides with a sample point of the grid.\<close>

definition clear_of :: "RxPlane \<Rightarrow> TxElement list \<Rightarrow> bool" where
  "clear_of g ts \<longleftrightarrow>
     (\<forall>t \<in> set ts. \<forall>iy < nat (ny g). \<forall>iz < nat (nz g). \<not> coincides g t iy iz)"

text \<open>
  The contribution of one transmitter at distance \<open>d\<close>, with the divisor \<open>2 * c * d\<close>:
  \<open>c\<close> is \<open>3.14159\<close> in the program and \<open>pi\<close> in the specification.
\<close>

definition wavelet :: "real \<Rightarrow> real \<Rightarrow> TxElement \<Rightarrow> real \<Rightarrow> complex" where
  "wavelet c k t d =
     complex_of_real (amplitude t / (2 * c * d)) *
       (complex_of_real (cos (- k * d + phase t)) + \<i> * complex_of_real (sin (- k * d + phase t)))"

text \<open>The value the program stores for the sample point \<open>(iy, iz)\<close>.\<close>

definition pixel_value :: "CueBeamSolver \<Rightarrow> nat \<times> nat \<Rightarrow> complex" where
  "pixel_value self idx =
     (\<Sum>t\<leftarrow>elements self.
        wavelet 3.14159 (wavenumber self) t (distance_to (rxPlane self) t (fst idx) (snd idx)))"

section \<open>Auxiliary definitions for the proofs\<close>

text \<open>The loop body over the transmitters as a function of the transmitter itself.\<close>

definition tx_step ::
  "real \<Rightarrow> real \<Rightarrow> real \<Rightarrow> real \<Rightarrow> TxElement \<Rightarrow> real \<times> real \<Rightarrow> (real \<times> real) \<times> error option" where
  "tx_step k px py pz t acc =
     (let d = sqrt ((px - x t) * (px - x t) + (py - y t) * (py - y t) + (pz - z t) * (pz - z t))
      in if 2 * 3.14159 * d = 0 then (acc, Some ZeroDivisionError)
         else ((fst acc + cos (- k * d + phase t) * (amplitude t / (2 * 3.14159 * d)),
                snd acc + sin (- k * d + phase t) * (amplitude t / (2 * 3.14159 * d))), None))"

text \<open>What one pass of the \<open>iy\<close> loop does to the store, for a solver that stays fixed.\<close>

definition px_heap :: "CueBeamSolver \<Rightarrow> nat \<Rightarrow> nat \<Rightarrow> heap \<Rightarrow> heap \<times> error option" where
  "px_heap self iz iy hp =
     (if \<exists>t \<in> set (elements self). coincides (rxPlane self) t iy iz
      then (hp, Some ZeroDivisionError)
      else setitem (pressurefield (rxPlane self)) (iy, iz) (pixel_value self (iy, iz)) hp)"

definition beamsim_heap :: "CueBeamSolver \<Rightarrow> heap \<Rightarrow> heap \<times> error option" where
  "beamsim_heap self hp =
     for_each [0..<nat (nz (rxPlane self))]
       (\<lambda>iz. for_each [0..<nat (ny (rxPlane self))] (px_heap self iz)) hp"

text \<open>The store with the cells \<open>S\<close> of the array at \<open>p\<close> overwritten by the values \<open>V\<close>.\<close>

definition ovr :: "heap \<Rightarrow> addr \<Rightarrow> (nat \<times> nat) set \<Rightarrow> (nat \<times> nat \<Rightarrow> complex) \<Rightarrow> heap" where
  "ovr hp p S V =
     hp\<lparr>arrays := (arrays hp)(p := (arrays hp p)
          \<lparr>item := (\<lambda>idx. if idx \<in> S then V idx else item (arrays hp p) idx)\<rparr>)\<rparr>"

text \<open>
  A store transformer that only overwrites cells of the array at \<open>p\<close> with values
  from \<open>V\<close>, the cells and the outcome being fixed by the shape of that array.
\<close>

definition planned ::
  "addr \<Rightarrow> (nat \<times> nat \<Rightarrow> complex) \<Rightarrow> (heap \<Rightarrow> heap \<times> error option) \<Rightarrow> bool" where
  "planned p V b \<longleftrightarrow>
     (\<forall>sh. \<exists>S e. \<forall>hp. shape (arrays hp p) = sh \<longrightarrow> b hp = (ovr hp p S V, e))"

section \<open>A small configuration\<close>

text \<open>
  The store before any class body has run, and the store and the grid after the class
  body of \<^verbatim>\<open>RxPlane\<close> and the call \<^verbatim>\<open>RxPlane(1.0, 0.0, 0.0, 1.0, 1.0, 1.0, 1, 2, 2)\<close>; a
  transmitter at the origin with amplitude 1 and phase 0; a solver on them with
  wavenumber 1000. The sample point \<open>(0, 0)\<close> of this grid is \<open>(1, 0, 0)\<close>, at distance 1
  from the transmitter.
\<close>

definition empty_heap :: heap where
  "empty_heap = \<lparr>arrays = (\<lambda>_. \<lparr>shape = (0, 0), item = (\<lambda>_. 0)\<rparr>), next_addr = 0\<rparr>"

definition demo_heap :: heap where
  "demo_heap =
     \<lparr>arrays = (\<lambda>_. \<lparr>shape = (0, 0), item = (\<lambda>_. 0)\<rparr>)
        (0 := \<lparr>shape = (240, 160), item = (\<lambda>_. 0)\<rparr>,
         Suc 0 := \<lparr>shape = (2, 2), item = (\<lambda>_. 0)\<rparr>),
      next_addr = 2\<rparr>"

definition demo_grid :: RxPlane where
  "demo_grid =
     \<lparr>x0 = 1, y0 = 0, z0 = 0, dx = 1, dy = 1, dz = 1, nx = 1, ny = 2, nz = 2,
      pressurefield = Suc 0\<rparr>"

definition demo_tx :: TxElement where
  "demo_tx = \<lparr>x = 0, y = 0, z = 0, amplitude = 1, phase = 0\<rparr>"

definition demo_solver :: CueBeamSolver where
  "demo_solver = \<lparr>wavenumber = 1000, elements = [demo_tx], rxPlane = demo_grid\<rparr>"

section \<open>Loops\<close>

text \<open>
  The loop over the transmitters reads \<open>elements ! itx\<close> for \<open>itx\<close> in the range of the
  list's length, which is a loop over the list itself. It raises exactly when a
  transmitter coincides with the sample point, and otherwise adds the contributions of
  the transmitters to the accumulators.
\<close>

lemma for_each_map: "for_each (map f is) body s = for_each is (\<lambda>i. body (f i)) s"
  by (induction "is" arbitrary: s) (auto split: prod.splits option.splits)

lemma for_each_cong:
  "(\<And>i s. i \<in> set is \<Longrightarrow> body i s = body' i s) \<Longrightarrow> for_each is body s = for_each is body' s"
  by (induction "is" arbitrary: s) (auto split: prod.splits option.splits)

lemma tx_body_step:
  "tx_body self px py pz itx acc = tx_step (wavenumber self) px py pz (elements self ! itx) acc"
  by (simp add: tx_body_def tx_step_def Let_def)

lemma tx_loop_elements:
  "for_each [0..<length (elements self)] (tx_body self px py pz) acc =
   for_each (elements self) (tx_step (wavenumber self) px py pz) acc"
proof -
  have "for_each [0..<length (elements self)] (tx_body self px py pz) acc =
        for_each [0..<length (elements self)]
          (\<lambda>i. tx_step (wavenumber self) px py pz (elements self ! i)) acc"
    by (rule for_each_cong) (simp add: tx_body_step)
  also have "\<dots> = for_each (map (nth (elements self)) [0..<length (elements self)])
                     (tx_step (wavenumber self) px py pz) acc"
    by (simp add: for_each_map)
  finally show ?thesis by (simp add: map_nth)
qed

lemma distance_to_unfold:
  "sqrt ((x0 g - x t) * (x0 g - x t)
       + (y0 g + real iy * dy g - y t) * (y0 g + real iy * dy g - y t)
       + (z0 g + real iz * dz g - z t) * (z0 g + real iz * dz g - z t)) = distance_to g t iy iz"
  by (simp add: distance_to_def power2_eq_square)

lemma distance_to_zero: "distance_to g t iy iz = 0 \<longleftrightarrow> coincides g t iy iz"
  by (auto simp: distance_to_def coincides_def sum_power2_eq_zero_iff add_nonneg_eq_0_iff)

lemma tx_step_at:
  "tx_step k (x0 g) (y0 g + real iy * dy g) (z0 g + real iz * dz g) t acc =
     (if coincides g t iy iz then (acc, Some ZeroDivisionError)
      else ((fst acc + cos (- k * distance_to g t iy iz + phase t)
                         * (amplitude t / (2 * 3.14159 * distance_to g t iy iz)),
             snd acc + sin (- k * distance_to g t iy iz + phase t)
                         * (amplitude t / (2 * 3.14159 * distance_to g t iy iz))), None))"
  unfolding tx_step_def Let_def distance_to_unfold
  by (simp add: distance_to_zero)

lemma tx_loop_raises:
  "\<exists>t \<in> set ts. coincides g t iy iz \<Longrightarrow>
   snd (for_each ts (tx_step k (x0 g) (y0 g + real iy * dy g) (z0 g + real iz * dz g)) acc)
     = Some ZeroDivisionError"
proof (induction ts arbitrary: acc)
  case Nil
  then show ?case by simp
next
  case (Cons t ts)
  show ?case
  proof (cases "coincides g t iy iz")
    case True
    then show ?thesis by (simp add: tx_step_at)
  next
    case False
    with Cons.prems have "\<exists>t \<in> set ts. coincides g t iy iz" by simp
    from Cons.IH [OF this] False show ?thesis by (simp add: tx_step_at)
  qed
qed

lemma wavelet_parts:
  "wavelet c k t d =
     complex_of_real (cos (- k * d + phase t) * (amplitude t / (2 * c * d))) +
     \<i> * complex_of_real (sin (- k * d + phase t) * (amplitude t / (2 * c * d)))"
  by (simp add: wavelet_def complex_eq_iff)

lemma tx_loop_sum:
  "\<forall>t \<in> set ts. \<not> coincides g t iy iz \<Longrightarrow>
   \<exists>re im. for_each ts (tx_step k (x0 g) (y0 g + real iy * dy g) (z0 g + real iz * dz g)) acc
             = ((re, im), None) \<and>
           complex_of_real re + \<i> * complex_of_real im =
             (complex_of_real (fst acc) + \<i> * complex_of_real (snd acc)) +
             (\<Sum>t\<leftarrow>ts. wavelet 3.14159 k t (distance_to g t iy iz))"
proof (induction ts arbitrary: acc)
  case Nil
  then show ?case by (cases acc) simp
next
  case (Cons t ts)
  let ?acc' = "(fst acc + cos (- k * distance_to g t iy iz + phase t)
                         * (amplitude t / (2 * 3.14159 * distance_to g t iy iz)),
                snd acc + sin (- k * distance_to g t iy iz + phase t)
                         * (amplitude t / (2 * 3.14159 * distance_to g t iy iz)))"
  from Cons.prems have rest: "\<forall>t \<in> set ts. \<not> coincides g t iy iz" and here: "\<not> coincides g t iy iz"
    by simp_all
  from Cons.IH [OF rest, of ?acc'] obtain re im where
    run: "for_each ts (tx_step k (x0 g) (y0 g + real iy * dy g) (z0 g + real iz * dz g)) ?acc'
             = ((re, im), None)"
    and val: "complex_of_real re + \<i> * complex_of_real im =
             (complex_of_real (fst ?acc') + \<i> * complex_of_real (snd ?acc')) +
             (\<Sum>t\<leftarrow>ts. wavelet 3.14159 k t (distance_to g t iy iz))"
    by blast
  have "for_each (t # ts) (tx_step k (x0 g) (y0 g + real iy * dy g) (z0 g + real iz * dz g)) acc
          = ((re, im), None)"
    using here run by (simp add: tx_step_at)
  moreover have "complex_of_real re + \<i> * complex_of_real im =
             (complex_of_real (fst acc) + \<i> * complex_of_real (snd acc)) +
             (\<Sum>t\<leftarrow>t # ts. wavelet 3.14159 k t (distance_to g t iy iz))"
    unfolding val by (simp add: wavelet_parts complex_eq_iff)
  ultimately show ?case by blast
qed

section \<open>The solver as a transformer of the store\<close>

text \<open>
  No statement of \<open>beamsim\<close> assigns to the solver, so a run is a transformer of the store
  alone; and every step of it overwrites cells of the grid's array with values that do
  not depend on the store.
\<close>

lemma pixel_body_heap:
  "pixel_body 0 iz iy (s, hp) = (case px_heap s iz iy hp of (hp', e) \<Rightarrow> ((s, hp'), e))"
proof (cases "\<exists>t \<in> set (elements s). coincides (rxPlane s) t iy iz")
  case True
  from tx_loop_raises [OF True, of "wavenumber s" "(0, 0)"]
  obtain acc where
    "for_each (elements s)
       (tx_step (wavenumber s) (x0 (rxPlane s)) (y0 (rxPlane s) + real iy * dy (rxPlane s))
          (z0 (rxPlane s) + real iz * dz (rxPlane s))) (0, 0) = (acc, Some ZeroDivisionError)"
    by (metis prod.collapse)
  with True show ?thesis
    by (simp add: pixel_body_def px_heap_def Let_def tx_loop_elements)
next
  case False
  then have "\<forall>t \<in> set (elements s). \<not> coincides (rxPlane s) t iy iz" by simp
  from tx_loop_sum [OF this, of "wavenumber s" "(0, 0)"]
  obtain re im where
    run: "for_each (elements s)
       (tx_step (wavenumber s) (x0 (rxPlane s)) (y0 (rxPlane s) + real iy * dy (rxPlane s))
          (z0 (rxPlane s) + real iz * dz (rxPlane s))) (0, 0) = ((re, im), None)"
    and val: "complex_of_real re + \<i> * complex_of_real im = pixel_value s (iy, iz)"
    by (auto simp: pixel_value_def)
  from False run val show ?thesis
    by (simp add: pixel_body_def px_heap_def Let_def tx_loop_elements split: prod.splits)
qed

lemma for_each_lift:
  "(\<And>i hp. i \<in> set is \<Longrightarrow> body i (s, hp) = (case b i hp of (hp', e) \<Rightarrow> ((s, hp'), e))) \<Longrightarrow>
   for_each is body (s, hp) = (case for_each is b hp of (hp', e) \<Rightarrow> ((s, hp'), e))"
proof (induction "is" arbitrary: hp)
  case Nil
  show ?case by simp
next
  case (Cons i "is")
  obtain hp1 e1 where step: "b i hp = (hp1, e1)" by (cases "b i hp")
  have first: "body i (s, hp) = ((s, hp1), e1)"
    using Cons.prems [of i hp] step by simp
  show ?case
  proof (cases e1)
    case None
    have "for_each is body (s, hp1) = (case for_each is b hp1 of (hp', e) \<Rightarrow> ((s, hp'), e))"
      by (rule Cons.IH) (simp add: Cons.prems)
    with first step None show ?thesis by simp
  next
    case (Some e)
    with first step show ?thesis by simp
  qed
qed

lemma beamsim_heap:
  "beamsim (s, hp) = (case beamsim_heap s hp of (hp', e) \<Rightarrow> ((s, hp'), e))"
proof -
  have inner: "for_each [0..<nat (ny (rxPlane (fst (s, hp'))))] (pixel_body 0 iz) (s, hp') =
        (case for_each [0..<nat (ny (rxPlane s))] (px_heap s iz) hp' of
           (hp'', e) \<Rightarrow> ((s, hp''), e))" for iz hp'
    unfolding fst_conv by (rule for_each_lift) (rule pixel_body_heap)
  show ?thesis
    unfolding beamsim_def beamsim_heap_def Let_def fst_conv
    by (rule for_each_lift) (rule inner)
qed

lemma ovr_empty: "ovr hp p {} V = hp"
  by (simp add: ovr_def)

lemma ovr_ovr: "ovr (ovr hp p S V) p T V = ovr hp p (S \<union> T) V"
  by (auto simp: ovr_def fun_eq_iff)

lemma ovr_idem: "ovr (ovr hp p S V) p S V = ovr hp p S V"
  by (simp add: ovr_ovr)

lemma ovr_shape: "shape (arrays (ovr hp p S V) q) = shape (arrays hp q)"
  by (simp add: ovr_def)

lemma ovr_other: "q \<noteq> p \<Longrightarrow> arrays (ovr hp p S V) q = arrays hp q"
  by (simp add: ovr_def)

lemma ovr_next: "next_addr (ovr hp p S V) = next_addr hp"
  by (simp add: ovr_def)

lemma ovr_item:
  "item (arrays (ovr hp p S V) p) idx = (if idx \<in> S then V idx else item (arrays hp p) idx)"
  by (simp add: ovr_def)

lemma setitem_ovr:
  "setitem p idx (V idx) hp =
     (if fst idx < fst (shape (arrays hp p)) \<and> snd idx < snd (shape (arrays hp p))
      then (ovr hp p {idx} V, None) else (hp, Some IndexError))"
proof -
  have "(item (arrays hp p))(idx := V idx) =
        (\<lambda>j. if j \<in> {idx} then V j else item (arrays hp p) j)"
    by (auto simp: fun_eq_iff)
  then show ?thesis
    by (simp add: setitem_def ovr_def Let_def)
qed

lemma planned_px: "planned (pressurefield (rxPlane s)) (pixel_value s) (px_heap s iz iy)"
  unfolding planned_def
proof
  fix sh :: "nat \<times> nat"
  let ?p = "pressurefield (rxPlane s)"
  show "\<exists>S e. \<forall>hp. shape (arrays hp ?p) = sh \<longrightarrow> px_heap s iz iy hp = (ovr hp ?p S (pixel_value s), e)"
  proof (cases "\<exists>t \<in> set (elements s). coincides (rxPlane s) t iy iz")
    case True
    then have "\<forall>hp. shape (arrays hp ?p) = sh \<longrightarrow>
                px_heap s iz iy hp = (ovr hp ?p {} (pixel_value s), Some ZeroDivisionError)"
      by (simp add: px_heap_def ovr_empty)
    then show ?thesis by blast
  next
    case False
    show ?thesis
    proof (cases "iy < fst sh \<and> iz < snd sh")
      case True
      with False have "\<forall>hp. shape (arrays hp ?p) = sh \<longrightarrow>
                px_heap s iz iy hp = (ovr hp ?p {(iy, iz)} (pixel_value s), None)"
        by (simp add: px_heap_def setitem_ovr)
      then show ?thesis by blast
    next
      case out: False
      with False have "\<forall>hp. shape (arrays hp ?p) = sh \<longrightarrow>
                px_heap s iz iy hp = (ovr hp ?p {} (pixel_value s), Some IndexError)"
        by (auto simp: px_heap_def setitem_ovr ovr_empty)
      then show ?thesis by blast
    qed
  qed
qed

lemma planned_for_each:
  "(\<And>i. i \<in> set is \<Longrightarrow> planned p V (b i)) \<Longrightarrow> planned p V (for_each is b)"
proof (induction "is")
  case Nil
  have "\<forall>hp. shape (arrays hp p) = sh \<longrightarrow> for_each [] b hp = (ovr hp p {} V, None)" for sh
    by (simp add: ovr_empty)
  then show ?case unfolding planned_def by blast
next
  case (Cons i "is")
  have head: "planned p V (b i)" by (simp add: Cons.prems)
  have tail: "planned p V (for_each is b)" by (rule Cons.IH) (simp add: Cons.prems)
  show ?case
    unfolding planned_def
  proof
    fix sh :: "nat \<times> nat"
    from head obtain S1 e1 where
      h: "\<forall>hp. shape (arrays hp p) = sh \<longrightarrow> b i hp = (ovr hp p S1 V, e1)"
      unfolding planned_def by blast
    from tail obtain S2 e2 where
      t: "\<forall>hp. shape (arrays hp p) = sh \<longrightarrow> for_each is b hp = (ovr hp p S2 V, e2)"
      unfolding planned_def by blast
    show "\<exists>S e. \<forall>hp. shape (arrays hp p) = sh \<longrightarrow> for_each (i # is) b hp = (ovr hp p S V, e)"
    proof (cases e1)
      case None
      have "\<forall>hp. shape (arrays hp p) = sh \<longrightarrow>
              for_each (i # is) b hp = (ovr hp p (S1 \<union> S2) V, e2)"
        using h t None by (simp add: ovr_shape ovr_ovr)
      then show ?thesis by blast
    next
      case (Some e)
      have "\<forall>hp. shape (arrays hp p) = sh \<longrightarrow>
              for_each (i # is) b hp = (ovr hp p S1 V, e1)"
        using h Some by simp
      then show ?thesis by blast
    qed
  qed
qed

lemma planned_beamsim: "planned (pressurefield (rxPlane s)) (pixel_value s) (beamsim_heap s)"
proof -
  have "beamsim_heap s =
          for_each [0..<nat (nz (rxPlane s))]
            (\<lambda>iz. for_each [0..<nat (ny (rxPlane s))] (px_heap s iz))"
    by (simp add: beamsim_heap_def fun_eq_iff)
  then show ?thesis
    by (simp add: planned_for_each planned_px)
qed

lemma planned_idem:
  assumes "planned p V b" and "b hp = (hp', e)"
  shows "b hp' = (hp', e)"
proof -
  from assms(1) obtain S e' where
    pl: "\<forall>h. shape (arrays h p) = shape (arrays hp p) \<longrightarrow> b h = (ovr h p S V, e')"
    unfolding planned_def by blast
  from pl assms(2) have hp': "hp' = ovr hp p S V" and e: "e = e'" by auto
  have "b hp' = (ovr hp' p S V, e')"
    using pl by (simp add: hp' ovr_shape)
  then show ?thesis by (simp add: hp' e ovr_idem)
qed

lemma for_each_ovr:
  "(\<And>i hp. i \<in> set is \<Longrightarrow> shape (arrays hp p) = sh \<Longrightarrow> b i hp = (ovr hp p (S i) V, None)) \<Longrightarrow>
   shape (arrays hp p) = sh \<Longrightarrow>
   for_each is b hp = (ovr hp p (\<Union>i \<in> set is. S i) V, None)"
proof (induction "is" arbitrary: hp)
  case Nil
  show ?case by (simp add: ovr_empty)
next
  case (Cons i "is")
  have first: "b i hp = (ovr hp p (S i) V, None)"
    by (rule Cons.prems(1)) (simp_all add: Cons.prems(2))
  have rest: "for_each is b (ovr hp p (S i) V) =
                (ovr (ovr hp p (S i) V) p (\<Union>i \<in> set is. S i) V, None)"
    by (rule Cons.IH) (simp_all add: Cons.prems ovr_shape)
  show ?case by (simp add: first rest ovr_ovr)
qed

lemma beamsim_heap_ok:
  assumes valid: "grid_valid (rxPlane s) hp"
    and clear: "clear_of (rxPlane s) (elements s)"
  shows "beamsim_heap s hp =
           (ovr hp (pressurefield (rxPlane s))
              {(iy, iz). iy < nat (ny (rxPlane s)) \<and> iz < nat (nz (rxPlane s))} (pixel_value s),
            None)"
proof -
  let ?p = "pressurefield (rxPlane s)"
  let ?sh = "(nat (ny (rxPlane s)), nat (nz (rxPlane s)))"
  from valid have sh: "shape (arrays hp ?p) = ?sh" by (simp add: grid_valid_def)
  have px: "px_heap s iz iy h = (ovr h ?p {(iy, iz)} (pixel_value s), None)"
    if "iz < nat (nz (rxPlane s))" "iy < nat (ny (rxPlane s))" "shape (arrays h ?p) = ?sh"
    for iz iy h
  proof -
    from clear that have "\<not> (\<exists>t \<in> set (elements s). coincides (rxPlane s) t iy iz)"
      by (auto simp: clear_of_def)
    with that show ?thesis by (simp add: px_heap_def setitem_ovr)
  qed
  have row: "for_each [0..<nat (ny (rxPlane s))] (px_heap s iz) h =
          (ovr h ?p (\<Union>iy \<in> set [0..<nat (ny (rxPlane s))]. {(iy, iz)}) (pixel_value s), None)"
    if "iz < nat (nz (rxPlane s))" "shape (arrays h ?p) = ?sh" for iz h
    by (rule for_each_ovr [where sh = ?sh]) (simp_all add: px that)
  have "beamsim_heap s hp =
          (ovr hp ?p (\<Union>iz \<in> set [0..<nat (nz (rxPlane s))].
                       \<Union>iy \<in> set [0..<nat (ny (rxPlane s))]. {(iy, iz)}) (pixel_value s), None)"
    unfolding beamsim_heap_def
    by (rule for_each_ovr [where sh = ?sh]) (simp_all add: row sh)
  moreover have "(\<Union>iz \<in> set [0..<nat (nz (rxPlane s))].
                       \<Union>iy \<in> set [0..<nat (ny (rxPlane s))]. {(iy, iz)}) =
        {(iy, iz). iy < nat (ny (rxPlane s)) \<and> iz < nat (nz (rxPlane s))}"
    by auto
  ultimately show ?thesis by simp
qed

section \<open>The constant 3.14159 is not pi\<close>




section \<open>Construction, and a run of the solver in closed form\<close>

lemma clear_pressurefield_ok:
  "0 \<le> ny g \<Longrightarrow> 0 \<le> nz g \<Longrightarrow>
   clear_pressurefield g hp =
     ((g\<lparr>pressurefield := next_addr hp\<rparr>,
       hp\<lparr>arrays := (arrays hp)(next_addr hp := \<lparr>shape = (nat (ny g), nat (nz g)), item = (\<lambda>_. 0)\<rparr>),
          next_addr := Suc (next_addr hp)\<rparr>), None)"
  by (simp add: clear_pressurefield_def numpy_zeros_def)

lemma RxPlane_new_ok:
  "anx = 1 \<Longrightarrow> 1 \<le> any \<Longrightarrow> any \<le> 4096 \<Longrightarrow> 1 \<le> anz \<Longrightarrow> anz \<le> 4096 \<Longrightarrow>
   RxPlane_new cls ax0 ay0 az0 adx ady adz anx any anz hp =
     (Inr \<lparr>x0 = ax0, y0 = ay0, z0 = az0, dx = adx, dy = ady, dz = adz,
           nx = 1, ny = any, nz = anz, pressurefield = next_addr hp\<rparr>,
      hp\<lparr>arrays := (arrays hp)(next_addr hp := \<lparr>shape = (nat any, nat anz), item = (\<lambda>_. 0)\<rparr>),
         next_addr := Suc (next_addr hp)\<rparr>)"
  by (simp add: RxPlane_new_def RxPlane_init_def RxPlane_class_def Let_def clear_pressurefield_ok)

lemma RxPlane_new_bad:
  "anx \<noteq> 1 \<or> any < 1 \<or> any > 4096 \<or> anz < 1 \<or> anz > 4096 \<Longrightarrow>
   RxPlane_new cls ax0 ay0 az0 adx ady adz anx any anz hp =
     (Inl (AttributeError
        (if anx \<noteq> 1 then ''nx must be 1: ''
         else if any > 4096 \<or> any < 1 then ''ny must have a sensible value between 1 an 4096''
         else ''nz must have a sensible value between 1 and 4096'')), hp)"
  by (auto simp: RxPlane_new_def RxPlane_init_def Let_def)

lemma demo_constructed:
  "class_body empty_heap = (Inr (RxPlane_class 0), snd (class_body empty_heap))"
  "RxPlane_new 0 1 0 0 1 1 1 1 2 2 (snd (class_body empty_heap)) = (Inr demo_grid, demo_heap)"
  by (simp_all add: class_body_def numpy_zeros_def empty_heap_def RxPlane_new_ok demo_grid_def
      demo_heap_def fun_upd_def)

lemma demo_valid: "grid_valid demo_grid demo_heap"
  by (simp add: grid_valid_def demo_grid_def demo_heap_def)

lemma demo_clear: "clear_of demo_grid [demo_tx]"
  by (simp add: clear_of_def coincides_def demo_grid_def demo_tx_def)

lemma demo_distance: "distance_to demo_grid demo_tx 0 0 = 1"
  by (simp add: distance_to_def demo_grid_def demo_tx_def)

lemma beamsim_planned:
  obtains S where
    "beamsim (s, hp) =
       ((s, ovr hp (pressurefield (rxPlane s)) S (pixel_value s)), snd (beamsim (s, hp)))"
proof -
  from planned_beamsim [of s] obtain S e where
    "beamsim_heap s hp = (ovr hp (pressurefield (rxPlane s)) S (pixel_value s), e)"
    unfolding planned_def by blast
  then have "beamsim (s, hp) = ((s, ovr hp (pressurefield (rxPlane s)) S (pixel_value s)), e)"
    by (simp add: beamsim_heap)
  then have "beamsim (s, hp) =
       ((s, ovr hp (pressurefield (rxPlane s)) S (pixel_value s)), snd (beamsim (s, hp)))"
    by simp
  then show ?thesis by (rule that)
qed

lemma beamsim_ok:
  assumes "grid_valid (rxPlane s) hp" and "clear_of (rxPlane s) (elements s)"
  shows "beamsim (s, hp) =
           ((s, ovr hp (pressurefield (rxPlane s))
                  {(iy, iz). iy < nat (ny (rxPlane s)) \<and> iz < nat (nz (rxPlane s))} (pixel_value s)),
            None)"
  by (simp add: beamsim_heap beamsim_heap_ok [OF assms])

lemma beamsim_cell:
  assumes "grid_valid (rxPlane s) hp" and "clear_of (rxPlane s) (elements s)"
    and "iy < nat (ny (rxPlane s))" and "iz < nat (nz (rxPlane s))"
  shows "item (buffer (rxPlane s) (snd (fst (beamsim (s, hp))))) (iy, iz) = pixel_value s (iy, iz)"
  using assms(3,4) by (simp add: beamsim_ok [OF assms(1,2)] buffer_def ovr_item)

lemma grid_valid_ovr: "grid_valid g hp \<Longrightarrow> grid_valid g (ovr hp p S V)"
  by (simp add: grid_valid_def ovr_shape ovr_next)

lemma beamsim_grid_valid:
  "grid_valid g hp \<Longrightarrow> grid_valid g (snd (fst (beamsim (s, hp))))"
proof -
  assume v: "grid_valid g hp"
  obtain S where "beamsim (s, hp) =
       ((s, ovr hp (pressurefield (rxPlane s)) S (pixel_value s)), snd (beamsim (s, hp)))"
    by (rule beamsim_planned)
  then have "snd (fst (beamsim (s, hp))) = ovr hp (pressurefield (rxPlane s)) S (pixel_value s)"
    by (metis fst_conv snd_conv)
  with v show ?thesis by (simp add: grid_valid_ovr)
qed

section \<open>Sums over lists of transmitters\<close>



section \<open>The small configuration after a run\<close>

lemma demo_cell:
  "item (buffer demo_grid (snd (fst (beamsim (demo_solver, demo_heap))))) (0, 0) =
     wavelet 3.14159 1000 demo_tx 1"
proof -
  have v: "grid_valid (rxPlane demo_solver) demo_heap"
    by (simp add: demo_solver_def demo_valid)
  have c: "clear_of (rxPlane demo_solver) (elements demo_solver)"
    by (simp add: demo_solver_def demo_clear)
  have "item (buffer (rxPlane demo_solver) (snd (fst (beamsim (demo_solver, demo_heap))))) (0, 0) =
          pixel_value demo_solver (0, 0)"
    by (rule beamsim_cell [OF v c]) (simp_all add: demo_solver_def demo_grid_def)
  moreover have "pixel_value demo_solver (0, 0) = wavelet 3.14159 1000 demo_tx 1"
    by (simp add: pixel_value_def demo_solver_def demo_distance)
  ultimately show ?thesis by (simp add: demo_solver_def)
qed

lemma wavelet_demo:
  "wavelet c 1000 demo_tx 1 = complex_of_real (1 / (2 * c)) * cis (- 1000)"
  by (simp add: wavelet_def demo_tx_def cis.ctr complex_eq_iff)


lemma wavelet_demo_neq_zero: "wavelet 3.14159 1000 demo_tx 1 \<noteq> 0"
  by (simp add: wavelet_demo)

lemma used_heap_facts:
  "next_addr (snd (fst (beamsim (demo_solver, demo_heap)))) = 2"
  "grid_valid demo_grid (snd (fst (beamsim (demo_solver, demo_heap))))"
proof -
  obtain S where run: "beamsim (demo_solver, demo_heap) =
       ((demo_solver, ovr demo_heap (pressurefield (rxPlane demo_solver)) S (pixel_value demo_solver)),
        snd (beamsim (demo_solver, demo_heap)))"
    by (rule beamsim_planned)
  have "snd (fst (beamsim (demo_solver, demo_heap))) =
          ovr demo_heap (pressurefield (rxPlane demo_solver)) S (pixel_value demo_solver)"
    by (metis run fst_conv snd_conv)
  then show "next_addr (snd (fst (beamsim (demo_solver, demo_heap)))) = 2"
    by (simp add: ovr_next demo_heap_def)
  show "grid_valid demo_grid (snd (fst (beamsim (demo_solver, demo_heap))))"
    by (rule beamsim_grid_valid) (rule demo_valid)
qed

section \<open>The constructor and the reset\<close>

text \<open>
  Claim C2. For every argument tuple, the constructor call raises exactly when \<open>nx \<noteq> 1\<close>, or
  \<open>ny\<close> is outside \<open>[1, 4096]\<close>, or \<open>nz\<close> is outside \<open>[1, 4096]\<close>. The exception is an
  \<^verbatim>\<open>AttributeError\<close> whose message names the parameter: \<open>nx\<close> when \<open>nx \<noteq> 1\<close>; otherwise \<open>ny\<close>
  when \<open>ny\<close> is out of range; otherwise \<open>nz\<close>. The instances that follow the theorem are the
  boundary cases: \<open>nx = 2\<close> fails, \<open>ny = 0\<close> fails, \<open>ny = 4096\<close> succeeds, \<open>ny = 4097\<close> fails,
  and the same for \<open>nz\<close>.
\<close>

theorem RxPlane_new_validation:
  "((\<exists>e. fst (RxPlane_new cls ax0 ay0 az0 adx ady adz anx any anz hp) = Inl e) \<longleftrightarrow>
      (anx \<noteq> 1 \<or> any < 1 \<or> any > 4096 \<or> anz < 1 \<or> anz > 4096)) \<and>
   (anx \<noteq> 1 \<longrightarrow>
      fst (RxPlane_new cls ax0 ay0 az0 adx ady adz anx any anz hp) =
        Inl (AttributeError ''nx must be 1: '')) \<and>
   (anx = 1 \<and> (any < 1 \<or> any > 4096) \<longrightarrow>
      fst (RxPlane_new cls ax0 ay0 az0 adx ady adz anx any anz hp) =
        Inl (AttributeError ''ny must have a sensible value between 1 an 4096'')) \<and>
   (anx = 1 \<and> 1 \<le> any \<and> any \<le> 4096 \<and> (anz < 1 \<or> anz > 4096) \<longrightarrow>
      fst (RxPlane_new cls ax0 ay0 az0 adx ady adz anx any anz hp) =
        Inl (AttributeError ''nz must have a sensible value between 1 and 4096''))"
proof (cases "anx \<noteq> 1 \<or> any < 1 \<or> any > 4096 \<or> anz < 1 \<or> anz > 4096")
  case True
  from RxPlane_new_bad [OF True] show ?thesis
    using True by auto
next
  case False
  then have "anx = 1" "1 \<le> any" "any \<le> 4096" "1 \<le> anz" "anz \<le> 4096" by auto
  from RxPlane_new_ok [OF this] show ?thesis
    using False by auto
qed

theorem RxPlane_new_validation_witness:
  "(\<exists>e. fst (RxPlane_new 0 1 0 0 1 1 1 2 2 2 demo_heap) = Inl e) \<and>
   fst (RxPlane_new 0 1 0 0 1 1 1 2 2 2 demo_heap) = Inl (AttributeError ''nx must be 1: '') \<and>
   (\<exists>e. fst (RxPlane_new 0 1 0 0 1 1 1 1 0 2 demo_heap) = Inl e) \<and>
   fst (RxPlane_new 0 1 0 0 1 1 1 1 0 2 demo_heap) =
     Inl (AttributeError ''ny must have a sensible value between 1 an 4096'') \<and>
   \<not> (\<exists>e. fst (RxPlane_new 0 1 0 0 1 1 1 1 4096 2 demo_heap) = Inl e) \<and>
   (\<exists>e. fst (RxPlane_new 0 1 0 0 1 1 1 1 4097 2 demo_heap) = Inl e) \<and>
   (\<exists>e. fst (RxPlane_new 0 1 0 0 1 1 1 1 2 0 demo_heap) = Inl e) \<and>
   fst (RxPlane_new 0 1 0 0 1 1 1 1 2 0 demo_heap) =
     Inl (AttributeError ''nz must have a sensible value between 1 and 4096'') \<and>
   \<not> (\<exists>e. fst (RxPlane_new 0 1 0 0 1 1 1 1 2 4096 demo_heap) = Inl e) \<and>
   (\<exists>e. fst (RxPlane_new 0 1 0 0 1 1 1 1 2 4097 demo_heap) = Inl e)"
  using RxPlane_new_validation [of 0 1 0 0 1 1 1 2 2 2 demo_heap]
    RxPlane_new_validation [of 0 1 0 0 1 1 1 1 0 2 demo_heap]
    RxPlane_new_validation [of 0 1 0 0 1 1 1 1 4096 2 demo_heap]
    RxPlane_new_validation [of 0 1 0 0 1 1 1 1 4097 2 demo_heap]
    RxPlane_new_validation [of 0 1 0 0 1 1 1 1 2 0 demo_heap]
    RxPlane_new_validation [of 0 1 0 0 1 1 1 1 2 4096 demo_heap]
    RxPlane_new_validation [of 0 1 0 0 1 1 1 1 2 4097 demo_heap]
  by simp

text \<open>
  Claim C3. When the arguments fail validation, the constructor call yields the exception
  and no grid object, and the store after the call is the store before it: no array
  has been allocated and nothing that the caller can observe has changed.
\<close>

theorem RxPlane_new_failure_atomic:
  "anx \<noteq> 1 \<or> any < 1 \<or> any > 4096 \<or> anz < 1 \<or> anz > 4096 \<Longrightarrow>
   \<exists>e. RxPlane_new cls ax0 ay0 az0 adx ady adz anx any anz hp = (Inl e, hp)"
  using RxPlane_new_bad by blast

theorem RxPlane_new_failure_atomic_witness:
  "(4097::int) > 4096 \<and>
   (\<exists>e. RxPlane_new 0 1 0 0 1 1 1 1 2 4097 demo_heap = (Inl e, demo_heap))"
proof -
  have h: "(1::int) \<noteq> 1 \<or> (2::int) < 1 \<or> (2::int) > 4096 \<or> (4097::int) < 1 \<or> (4097::int) > 4096"
    by simp
  show ?thesis
    using RxPlane_new_failure_atomic [OF h, of 0 1 0 0 1 1 1 demo_heap] by simp
qed

text \<open>
  Claim C9, as stated, says that the reset re-zeroes the buffer in place. It does not: after
  a run of the solver on the small configuration the cell \<open>(0, 0)\<close> of the grid's array is not
  zero; \<open>clear_pressurefield\<close> then returns normally, the grid's \<open>pressurefield\<close> names another
  array than before, and the array it named before still holds the non-zero cell.
\<close>

theorem clear_pressurefield_in_place_counterexample:
  "grid_valid demo_grid (snd (fst (beamsim (demo_solver, demo_heap)))) \<and>
   item (buffer demo_grid (snd (fst (beamsim (demo_solver, demo_heap))))) (0, 0) \<noteq> 0 \<and>
   snd (clear_pressurefield demo_grid (snd (fst (beamsim (demo_solver, demo_heap))))) = None \<and>
   pressurefield (fst (fst (clear_pressurefield demo_grid (snd (fst (beamsim (demo_solver, demo_heap)))))))
     \<noteq> pressurefield demo_grid \<and>
   item (arrays (snd (fst (clear_pressurefield demo_grid (snd (fst (beamsim (demo_solver, demo_heap)))))))
           (pressurefield demo_grid)) (0, 0) \<noteq> 0"
proof -
  let ?hp = "snd (fst (beamsim (demo_solver, demo_heap)))"
  have nz0: "0 \<le> ny demo_grid" "0 \<le> nz demo_grid"
    by (simp_all add: demo_grid_def)
  have cell: "item (arrays ?hp (Suc 0)) (0, 0) \<noteq> 0"
    using demo_cell wavelet_demo_neq_zero by (simp add: buffer_def demo_grid_def)
  have p: "pressurefield demo_grid = Suc 0" by (simp add: demo_grid_def)
  show ?thesis
    using cell used_heap_facts
    by (simp add: clear_pressurefield_ok [OF nz0] buffer_def p)
qed

text \<open>
  Claim C9, amended. For a validly constructed grid, \<open>clear_pressurefield\<close> returns normally
  and binds the grid's \<open>pressurefield\<close> to a newly allocated array, leaving every array that
  existed before as it was; the grid stays valid, and its buffer afterwards has shape
  \<open>(ny, nz)\<close> and holds complex zero in every cell. A grid that the constructor returns is
  valid, has the counts it was given, and its buffer has shape \<open>(ny, nz)\<close> and holds complex
  zero in every cell.
\<close>

theorem clear_pressurefield_zeroes:
  "(grid_valid g hp \<longrightarrow>
      snd (clear_pressurefield g hp) = None \<and>
      fst (fst (clear_pressurefield g hp)) = g\<lparr>pressurefield := next_addr hp\<rparr> \<and>
      grid_valid (fst (fst (clear_pressurefield g hp))) (snd (fst (clear_pressurefield g hp))) \<and>
      shape (buffer (fst (fst (clear_pressurefield g hp))) (snd (fst (clear_pressurefield g hp)))) =
        (nat (ny g), nat (nz g)) \<and>
      (\<forall>idx. item (buffer (fst (fst (clear_pressurefield g hp)))
                     (snd (fst (clear_pressurefield g hp)))) idx = 0) \<and>
      (\<forall>q. q < next_addr hp \<longrightarrow> arrays (snd (fst (clear_pressurefield g hp))) q = arrays hp q)) \<and>
   (RxPlane_new cls ax0 ay0 az0 adx ady adz anx any anz hp0 = (Inr g', hp') \<longrightarrow>
      grid_valid g' hp' \<and> ny g' = any \<and> nz g' = anz \<and>
      shape (buffer g' hp') = (nat any, nat anz) \<and>
      (\<forall>idx. item (buffer g' hp') idx = 0))"
proof (intro conjI impI)
  assume v: "grid_valid g hp"
  then have nn: "0 \<le> ny g" "0 \<le> nz g" by (simp_all add: grid_valid_def)
  note r = clear_pressurefield_ok [OF nn, of hp]
  show "snd (clear_pressurefield g hp) = None" by (simp add: r)
  show "fst (fst (clear_pressurefield g hp)) = g\<lparr>pressurefield := next_addr hp\<rparr>" by (simp add: r)
  show "grid_valid (fst (fst (clear_pressurefield g hp))) (snd (fst (clear_pressurefield g hp)))"
    using v by (simp add: r grid_valid_def)
  show "shape (buffer (fst (fst (clear_pressurefield g hp))) (snd (fst (clear_pressurefield g hp)))) =
        (nat (ny g), nat (nz g))"
    by (simp add: r buffer_def)
  show "\<forall>idx. item (buffer (fst (fst (clear_pressurefield g hp)))
                     (snd (fst (clear_pressurefield g hp)))) idx = 0"
    by (simp add: r buffer_def)
  show "\<forall>q. q < next_addr hp \<longrightarrow> arrays (snd (fst (clear_pressurefield g hp))) q = arrays hp q"
    by (simp add: r)
next
  assume new: "RxPlane_new cls ax0 ay0 az0 adx ady adz anx any anz hp0 = (Inr g', hp')"
  have valid: "anx = 1 \<and> 1 \<le> any \<and> any \<le> 4096 \<and> 1 \<le> anz \<and> anz \<le> 4096"
  proof (rule ccontr)
    assume "\<not> ?thesis"
    then have "anx \<noteq> 1 \<or> any < 1 \<or> any > 4096 \<or> anz < 1 \<or> anz > 4096" by auto
    from RxPlane_new_bad [OF this, of cls ax0 ay0 az0 adx ady adz hp0] new show False by simp
  qed
  then have a: "anx = 1" "1 \<le> any" "any \<le> 4096" "1 \<le> anz" "anz \<le> 4096" by simp_all
  from RxPlane_new_ok [OF a, of cls ax0 ay0 az0 adx ady adz hp0] new
  have g': "g' = \<lparr>x0 = ax0, y0 = ay0, z0 = az0, dx = adx, dy = ady, dz = adz,
           nx = 1, ny = any, nz = anz, pressurefield = next_addr hp0\<rparr>"
    and hp': "hp' = hp0\<lparr>arrays := (arrays hp0)(next_addr hp0 := \<lparr>shape = (nat any, nat anz), item = (\<lambda>_. 0)\<rparr>),
         next_addr := Suc (next_addr hp0)\<rparr>"
    by simp_all
  show "grid_valid g' hp'" using a by (simp add: g' hp' grid_valid_def)
  show "ny g' = any" "nz g' = anz" by (simp_all add: g')
  show "shape (buffer g' hp') = (nat any, nat anz)" by (simp add: g' hp' buffer_def)
  show "\<forall>idx. item (buffer g' hp') idx = 0" by (simp add: g' hp' buffer_def)
qed

theorem clear_pressurefield_zeroes_witness:
  "grid_valid demo_grid (snd (fst (beamsim (demo_solver, demo_heap)))) \<and>
   snd (clear_pressurefield demo_grid (snd (fst (beamsim (demo_solver, demo_heap))))) = None \<and>
   shape (buffer (fst (fst (clear_pressurefield demo_grid (snd (fst (beamsim (demo_solver, demo_heap)))))))
            (snd (fst (clear_pressurefield demo_grid (snd (fst (beamsim (demo_solver, demo_heap)))))))) =
     (2, 2) \<and>
   item (buffer (fst (fst (clear_pressurefield demo_grid (snd (fst (beamsim (demo_solver, demo_heap)))))))
            (snd (fst (clear_pressurefield demo_grid (snd (fst (beamsim (demo_solver, demo_heap))))))))
     (0, 0) = 0 \<and>
   RxPlane_new 0 1 0 0 1 1 1 1 2 2 (snd (class_body empty_heap)) = (Inr demo_grid, demo_heap) \<and>
   shape (buffer demo_grid demo_heap) = (2, 2) \<and>
   item (buffer demo_grid demo_heap) (1, 1) = 0"
proof -
  let ?hp = "snd (fst (beamsim (demo_solver, demo_heap)))"
  have h1: "grid_valid demo_grid ?hp"
    by (rule used_heap_facts)
  have h2: "RxPlane_new 0 1 0 0 1 1 1 1 2 2 (snd (class_body empty_heap)) = (Inr demo_grid, demo_heap)"
    by (rule demo_constructed)
  note inst = clear_pressurefield_zeroes
         [of demo_grid ?hp 0 1 0 0 1 1 1 1 2 2 "snd (class_body empty_heap)" demo_grid demo_heap]
  from inst [THEN conjunct1] h1
  have a: "snd (clear_pressurefield demo_grid ?hp) = None"
    and b: "shape (buffer (fst (fst (clear_pressurefield demo_grid ?hp)))
              (snd (fst (clear_pressurefield demo_grid ?hp)))) = (nat (ny demo_grid), nat (nz demo_grid))"
    and c: "\<forall>idx. item (buffer (fst (fst (clear_pressurefield demo_grid ?hp)))
              (snd (fst (clear_pressurefield demo_grid ?hp)))) idx = 0"
    by blast+
  from inst [THEN conjunct2] h2
  have d: "shape (buffer demo_grid demo_heap) = (nat 2, nat 2)"
    and e: "\<forall>idx. item (buffer demo_grid demo_heap) idx = 0"
    by blast+
  have n: "(nat (ny demo_grid), nat (nz demo_grid)) = (2, 2)"
    by (simp add: demo_grid_def)
  from h1 a b c d e h2 show ?thesis
    unfolding n by simp
qed

section \<open>Properties of the solver\<close>




text \<open>
  Claim C4. \<open>beamsim\<close> is idempotent: run again on the state that a first run leaves, with
  the solver unchanged, it leaves that same state and has the same outcome. This holds for
  every solver, grid and store, also when the run raises.
\<close>

theorem beamsim_idempotent: "beamsim (fst (beamsim st)) = beamsim st"
proof -
  obtain s hp where st: "st = (s, hp)" by (cases st)
  obtain hp' e where run: "beamsim_heap s hp = (hp', e)" by (cases "beamsim_heap s hp")
  have "beamsim_heap s hp' = (hp', e)"
    using planned_beamsim run by (rule planned_idem)
  with run show ?thesis by (simp add: st beamsim_heap)
qed



text \<open>
  Claim C7. For a validly constructed grid and any list of transmitters, the grid's buffer
  after \<open>beamsim\<close> has shape \<open>(ny, nz)\<close>, and the counts are the ones before the run.
\<close>

theorem beamsim_shape:
  "grid_valid (rxPlane s) hp \<Longrightarrow>
   shape (buffer (rxPlane (fst (fst (beamsim (s, hp))))) (snd (fst (beamsim (s, hp))))) =
     (nat (ny (rxPlane s)), nat (nz (rxPlane s))) \<and>
   ny (rxPlane (fst (fst (beamsim (s, hp))))) = ny (rxPlane s) \<and>
   nz (rxPlane (fst (fst (beamsim (s, hp))))) = nz (rxPlane s)"
proof -
  assume v: "grid_valid (rxPlane s) hp"
  obtain S where run: "beamsim (s, hp) =
       ((s, ovr hp (pressurefield (rxPlane s)) S (pixel_value s)), snd (beamsim (s, hp)))"
    by (rule beamsim_planned)
  have "fst (fst (beamsim (s, hp))) = s"
    and "snd (fst (beamsim (s, hp))) = ovr hp (pressurefield (rxPlane s)) S (pixel_value s)"
    by (metis run fst_conv, metis run fst_conv snd_conv)
  with v show ?thesis by (simp add: buffer_def ovr_shape grid_valid_def)
qed

theorem beamsim_shape_witness:
  "grid_valid (rxPlane demo_solver) demo_heap \<and>
   shape (buffer (rxPlane (fst (fst (beamsim (demo_solver, demo_heap)))))
            (snd (fst (beamsim (demo_solver, demo_heap))))) = (2, 2)"
proof -
  have h: "grid_valid (rxPlane demo_solver) demo_heap"
    by (simp add: demo_solver_def demo_valid)
  show ?thesis
    using h beamsim_shape [OF h] by (simp add: demo_solver_def demo_grid_def)
qed

text \<open>
  Claim C8. \<open>beamsim\<close> changes nothing but the array that the grid's \<open>pressurefield\<close> names: the
  solver after the run is the solver before it (the wavenumber, every field of every
  transmitter, and every field of the grid), no array is allocated, and every other array
  of the store is as before.
\<close>

theorem beamsim_frame:
  "fst (fst (beamsim (s, hp))) = s \<and>
   next_addr (snd (fst (beamsim (s, hp)))) = next_addr hp \<and>
   (\<forall>q. q \<noteq> pressurefield (rxPlane s) \<longrightarrow> arrays (snd (fst (beamsim (s, hp)))) q = arrays hp q)"
proof -
  obtain S where run: "beamsim (s, hp) =
       ((s, ovr hp (pressurefield (rxPlane s)) S (pixel_value s)), snd (beamsim (s, hp)))"
    by (rule beamsim_planned)
  have "fst (fst (beamsim (s, hp))) = s"
    and "snd (fst (beamsim (s, hp))) = ovr hp (pressurefield (rxPlane s)) S (pixel_value s)"
    by (metis run fst_conv, metis run fst_conv snd_conv)
  then show ?thesis by (simp add: ovr_next ovr_other)
qed

theorem beamsim_frame_witness:
  "fst (fst (beamsim (demo_solver, demo_heap))) = demo_solver \<and>
   next_addr (snd (fst (beamsim (demo_solver, demo_heap)))) = 2 \<and>
   (0::nat) \<noteq> pressurefield (rxPlane demo_solver) \<and>
   arrays (snd (fst (beamsim (demo_solver, demo_heap)))) 0 = \<lparr>shape = (240, 160), item = (\<lambda>_. 0)\<rparr>"
proof -
  have h: "(0::nat) \<noteq> pressurefield (rxPlane demo_solver)"
    by (simp add: demo_solver_def demo_grid_def)
  show ?thesis
    using h beamsim_frame [of demo_solver demo_heap]
    by (simp add: demo_heap_def)
qed

text \<open>
  Claim C10. With an empty list of transmitters and a validly constructed grid, \<open>beamsim\<close>
  returns normally and every cell \<open>(iy, iz)\<close> with \<open>iy < ny\<close> and \<open>iz < nz\<close> of the buffer holds
  complex zero afterwards, whatever the buffer held before.
\<close>

theorem beamsim_no_transmitters:
  assumes "grid_valid (rxPlane s) hp"
    and "iy < nat (ny (rxPlane s))" and "iz < nat (nz (rxPlane s))"
  shows "snd (beamsim (s\<lparr>elements := []\<rparr>, hp)) = None \<and>
         item (buffer (rxPlane s) (snd (fst (beamsim (s\<lparr>elements := []\<rparr>, hp))))) (iy, iz) = 0"
proof -
  let ?s = "s\<lparr>elements := []\<rparr>"
  have v: "grid_valid (rxPlane ?s) hp" using assms(1) by simp
  have c: "clear_of (rxPlane ?s) (elements ?s)" by (simp add: clear_of_def)
  have "item (buffer (rxPlane ?s) (snd (fst (beamsim (?s, hp))))) (iy, iz) = pixel_value ?s (iy, iz)"
    by (rule beamsim_cell [OF v c]) (simp_all add: assms)
  moreover have "pixel_value ?s (iy, iz) = 0" by (simp add: pixel_value_def)
  moreover have "snd (beamsim (?s, hp)) = None" by (simp add: beamsim_ok [OF v c])
  ultimately show ?thesis by simp
qed

theorem beamsim_no_transmitters_witness:
  "grid_valid (rxPlane demo_solver) (snd (fst (beamsim (demo_solver, demo_heap)))) \<and>
   (0::nat) < nat (ny (rxPlane demo_solver)) \<and> (1::nat) < nat (nz (rxPlane demo_solver)) \<and>
   snd (beamsim (demo_solver\<lparr>elements := []\<rparr>, snd (fst (beamsim (demo_solver, demo_heap))))) = None \<and>
   item (buffer (rxPlane demo_solver)
          (snd (fst (beamsim (demo_solver\<lparr>elements := []\<rparr>,
                              snd (fst (beamsim (demo_solver, demo_heap)))))))) (0, 1) = 0"
proof -
  have h1: "grid_valid (rxPlane demo_solver) (snd (fst (beamsim (demo_solver, demo_heap))))"
    by (rule beamsim_grid_valid) (simp add: demo_solver_def demo_valid)
  have h2: "(0::nat) < nat (ny (rxPlane demo_solver))"
    and h3: "(1::nat) < nat (nz (rxPlane demo_solver))"
    by (simp_all add: demo_solver_def demo_grid_def)
  show ?thesis
    using h1 h2 h3 beamsim_no_transmitters [OF h1 h2 h3] by simp
qed

end
